theory Spec2Isabelle
  imports Main
begin

section \<open>Goblin: the shader program loader (src/gl/program.js) and Vec3 (src/math/vec3.js)\<close>

text \<open>
  A shallow embedding of the JavaScript class \<open>Program\<close> and of the two methods
  \<open>copy\<close> and \<open>clone\<close> of \<open>Vec3\<close>.

  \<^item> The instance (\<open>this\<close>) is a record; a method takes the instance and returns it
    updated. A \<open>throw\<close> is a value \<open>Inl e\<close>; a promise is modelled by the state it
    finally settles in (\<open>Pending\<close> when it never settles).
  \<^item> The WebGL context and \<open>fetch\<close> are external: they are parameters of the model.
    The context is a record of the answers it gives to the queries the code makes;
    the network is a function from a URL to the settled state of \<open>fetch(url)\<close>,
    together with the stage whose promise chain settles first.
  \<^item> Every call the code makes to the context or to \<open>fetch\<close>, and every error that
    is thrown or that rejects a promise, is appended to a list of events that is
    threaded through the methods, so that "is never attempted", "no I/O" and "the
    first error" are statements about that list.
  \<^item> The debug logger \<open>dl\<close> (imported from log.js) only prints; it is left out.
\<close>

subsection \<open>JavaScript values, errors, promises and Map\<close>

datatype js_error =
    Error string           \<comment> \<open>\<open>new Error(message)\<close>\<close>
  | TypeError string       \<comment> \<open>raised by the engine, e.g. reading a property of \<open>null\<close>\<close>
  | ReferenceError string  \<comment> \<open>raised by the engine for an identifier with no binding\<close>

datatype 'a promise =
    Pending
  | Fulfilled 'a
  | Rejected js_error

text \<open>
  A JavaScript \<open>Map\<close> keeps its entries in insertion order; \<open>set\<close> on a key that is
  present replaces the value in place, on a new key it appends the entry.
\<close>

fun Map_set :: "'k \<Rightarrow> 'v \<Rightarrow> ('k \<times> 'v) list \<Rightarrow> ('k \<times> 'v) list" where
  "Map_set k v [] = [(k, v)]"
| "Map_set k v ((k', v') # m) = (if k' = k then (k, v) # m else (k', v') # Map_set k v m)"

definition Map_get :: "('k \<times> 'v) list \<Rightarrow> 'k \<Rightarrow> 'v option" where
  "Map_get m k = map_of m k"

definition Map_keys :: "('k \<times> 'v) list \<Rightarrow> 'k list" where
  "Map_keys m = map fst m"

text \<open>\<open>s.endsWith(t)\<close>.\<close>

definition endsWith :: "string \<Rightarrow> string \<Rightarrow> bool" where
  "endsWith s t = (length t \<le> length s \<and> drop (length s - length t) s = t)"

text \<open>\<open>"..." + x\<close> for a value \<open>x\<close> that is a string or \<open>null\<close>: \<open>null\<close> prints as "null".\<close>

definition js_string :: "string option \<Rightarrow> string" where
  "js_string x = (case x of None \<Rightarrow> ''null'' | Some s \<Rightarrow> s)"

subsection \<open>The WebGL context and the network, as parameters\<close>

datatype shader_type = VERTEX_SHADER | FRAGMENT_SHADER

datatype parameter = ACTIVE_UNIFORMS | ACTIVE_ATTRIBUTES

text \<open>
  A shader object is identified with what the code has put into it (its type and
  the source uploaded by \<open>shaderSource\<close>), a program object with the shaders attached
  to it, in the order of attachment. The context's answers are functions of these.
\<close>

datatype shader = Shader shader_type string

datatype gl_program = GLProgram "shader list"

datatype location = Null | Location int

record gl_context =
  COMPILE_STATUS :: "shader \<Rightarrow> bool"
    \<comment> \<open>\<open>getShaderParameter(shader, COMPILE_STATUS)\<close> after \<open>compileShader(shader)\<close>\<close>
  getShaderInfoLog :: "shader \<Rightarrow> string option"
    \<comment> \<open>\<open>getShaderInfoLog(shader)\<close>: a string, or \<open>null\<close>\<close>
  LINK_STATUS :: "gl_program \<Rightarrow> bool"
    \<comment> \<open>\<open>getProgramParameter(program, LINK_STATUS)\<close> after \<open>linkProgram(program)\<close>\<close>
  VALIDATE_STATUS :: "gl_program \<Rightarrow> bool"
    \<comment> \<open>\<open>getProgramParameter(program, VALIDATE_STATUS)\<close> after \<open>validateProgram(program)\<close>\<close>
  ACTIVE :: "gl_program \<Rightarrow> parameter \<Rightarrow> nat"
    \<comment> \<open>\<open>getProgramParameter(program, ACTIVE_UNIFORMS)\<close> and \<open>..., ACTIVE_ATTRIBUTES)\<close>\<close>
  getActiveUniform :: "gl_program \<Rightarrow> nat \<Rightarrow> string option"
    \<comment> \<open>the \<open>name\<close> of \<open>getActiveUniform(program, idx)\<close>; \<open>None\<close> when it returns \<open>null\<close>\<close>
  getActiveAttrib :: "gl_program \<Rightarrow> nat \<Rightarrow> string option"
  getUniformLocation :: "gl_program \<Rightarrow> string \<Rightarrow> location"
  getAttribLocation :: "gl_program \<Rightarrow> string \<Rightarrow> location"

text \<open>
  The calls made to the context and to \<open>fetch\<close> and the errors raised, in the order
  in which they happen.
\<close>

datatype event =
    Raised js_error
  | Fetch string
  | CreateShader shader_type
  | ShaderSource shader string
  | CompileShader shader
  | GetShaderParameter shader
  | GetShaderInfoLog shader
  | CreateProgram
  | AttachShader gl_program shader
  | LinkProgram gl_program
  | GetLinkStatus gl_program
  | ValidateProgram gl_program
  | GetValidateStatus gl_program
  | GetActiveCount gl_program parameter
  | GetActive parameter gl_program nat
  | GetLocation parameter gl_program string

text \<open>
  A \<open>Response\<close> has an HTTP status (404 for a resource that is not found: \<open>fetch\<close>
  fulfils its promise all the same) and a body, read by \<open>response.text()\<close>, which is a
  promise of its own.
\<close>

datatype response = Response (status: nat) (body_text: "string promise")

record network =
  fetch :: "string \<Rightarrow> response promise"
    \<comment> \<open>the settled state of \<open>fetch(url)\<close>\<close>
  first :: shader_type
    \<comment> \<open>the stage whose \<open>createShader\<close> promise settles first (either can)\<close>

subsection \<open>The class Program\<close>

record Program =
  this_context :: gl_context
  this_name :: string
  this_shaders :: "(shader_type \<times> shader) list"
  this_program :: "gl_program option"           \<comment> \<open>\<open>None\<close> is \<open>undefined\<close>\<close>
  this_parameters :: "parameter \<Rightarrow> (string \<times> location) list"
    \<comment> \<open>the outer Map has exactly the two keys set by the constructor\<close>
  this_path :: string

type_synonym state = "Program \<times> event list"

text \<open>The static members (program.js, lines 126 to 134).\<close>

definition DEFAULT_SHADER_PATH :: string where
  "DEFAULT_SHADER_PATH = ''/shaders/''"

fun SHADER_EXTENSIONS :: "shader_type \<Rightarrow> string" where
  "SHADER_EXTENSIONS VERTEX_SHADER = ''.vert''"
| "SHADER_EXTENSIONS FRAGMENT_SHADER = ''.frag''"

fun QUALIFYING_FUNCTION :: "parameter \<Rightarrow> string" where
  "QUALIFYING_FUNCTION ACTIVE_UNIFORMS = ''Uniform''"
| "QUALIFYING_FUNCTION ACTIVE_ATTRIBUTES = ''Attrib''"

text \<open>
  The constructor (lines 26 to 41). \<open>name\<close> and \<open>path\<close> are \<open>None\<close> when the argument
  is absent; \<open>!name\<close> holds for an absent and for an empty name.
\<close>

definition constructor ::
  "gl_context \<Rightarrow> string option \<Rightarrow> string option \<Rightarrow> event list \<Rightarrow> (js_error + Program) \<times> event list"
where
  "constructor ctx name path_arg w =
     (if name = None \<or> name = Some []
      then (Inl (Error ''Name required in order to create a program.''), w)
      else
        let n = the name;
            path = (case path_arg of None \<Rightarrow> DEFAULT_SHADER_PATH | Some p \<Rightarrow> p);
            path = (if \<not> endsWith path ''/'' then path @ ''/'' else path)
        in (Inr \<lparr> this_context = ctx,
                  this_name = n,
                  this_shaders = [],
                  this_program = None,
                  this_parameters = ((\<lambda>_. [])(ACTIVE_UNIFORMS := []))(ACTIVE_ATTRIBUTES := []),
                  this_path = path @ n @ ''/'' \<rparr>, w))"

text \<open>The URL computed on line 68.\<close>

definition shader_file :: "Program \<Rightarrow> shader_type \<Rightarrow> string" where
  "shader_file this type = this_path this @ this_name this @ SHADER_EXTENSIONS type"

text \<open>
  \<open>fetch(file).then(response => response.text())\<close> (lines 71 and 72): the promise of
  the body. The status of the response is not looked at.
\<close>

definition fetch_text :: "network \<Rightarrow> string \<Rightarrow> string promise" where
  "fetch_text net file =
     (case fetch net file of
        Pending \<Rightarrow> Pending
      | Rejected e \<Rightarrow> Rejected e
      | Fulfilled r \<Rightarrow> body_text r)"

text \<open>The callback of lines 73 to 82, run when the body has arrived.\<close>

definition createShader_then :: "shader_type \<Rightarrow> string \<Rightarrow> state \<Rightarrow> shader promise \<times> state" where
  "createShader_then type body s =
     (case s of (this, w) \<Rightarrow>
        let c = this_context this;
            shader = Shader type body;
            w = w @ [CreateShader type, ShaderSource shader body, CompileShader shader,
                     GetShaderParameter shader]
        in if \<not> COMPILE_STATUS c shader
           then (let e = Error (''Error compiling shader: '' @ js_string (getShaderInfoLog c shader))
                 in (Rejected e, (this, w @ [GetShaderInfoLog shader, Raised e])))
           else (Fulfilled shader,
                 (this\<lparr>this_shaders := Map_set type shader (this_shaders this)\<rparr>, w)))"

text \<open>
  \<open>createShader(type)\<close> (lines 67 to 83). The call itself issues the fetch and returns
  a promise; the promise is the rest of the chain, a function that is run on the state
  of the moment the chain settles.
\<close>

definition createShader ::
  "network \<Rightarrow> shader_type \<Rightarrow> state \<Rightarrow> (state \<Rightarrow> shader promise \<times> state) \<times> state"
where
  "createShader net type s =
     (case s of (this, w) \<Rightarrow>
        let file = shader_file this type
        in ((\<lambda>s'. case fetch_text net file of
                     Pending \<Rightarrow> (Pending, s')
                   | Rejected e \<Rightarrow> (Rejected e, (fst s', snd s' @ [Raised e]))
                   | Fulfilled body \<Rightarrow> createShader_then type body s'),
            (this, w @ [Fetch file])))"

text \<open>
  \<open>Promise.all\<close> of the two shader promises \<open>[vertex, fragment]\<close>: fulfilled with both
  values in the order of the array when both are fulfilled, rejected with the reason of
  the promise that is rejected first, pending otherwise.
\<close>

fun Promise_all :: "shader_type \<Rightarrow> 'a promise \<Rightarrow> 'a promise \<Rightarrow> 'a list promise" where
  "Promise_all fst_settled (Fulfilled a) (Fulfilled b) = Fulfilled [a, b]"
| "Promise_all fst_settled (Rejected e) (Rejected e') =
     Rejected (if fst_settled = VERTEX_SHADER then e else e')"
| "Promise_all fst_settled (Rejected e) (Fulfilled b) = Rejected e"
| "Promise_all fst_settled (Rejected e) Pending = Rejected e"
| "Promise_all fst_settled (Fulfilled a) (Rejected e') = Rejected e'"
| "Promise_all fst_settled Pending (Rejected e') = Rejected e'"
| "Promise_all fst_settled (Fulfilled a) Pending = Pending"
| "Promise_all fst_settled Pending (Fulfilled b) = Pending"
| "Promise_all fst_settled Pending Pending = Pending"

text \<open>\<open>compileProgram(shaders)\<close> (lines 85 to 98).\<close>

definition attachShader :: "gl_program \<Rightarrow> shader \<Rightarrow> gl_program" where
  "attachShader p sh = (case p of GLProgram shs \<Rightarrow> GLProgram (shs @ [sh]))"

fun attach_all :: "gl_program \<Rightarrow> shader list \<Rightarrow> event list \<Rightarrow> gl_program \<times> event list" where
  "attach_all p [] w = (p, w)"
| "attach_all p (sh # shs) w = attach_all (attachShader p sh) shs (w @ [AttachShader p sh])"

definition compileProgram :: "shader list \<Rightarrow> state \<Rightarrow> (js_error + unit) \<times> state" where
  "compileProgram shaders s =
     (case s of (this, w) \<Rightarrow>
        let c = this_context this;
            (p, w) = attach_all (GLProgram []) shaders (w @ [CreateProgram]);
            this = this\<lparr>this_program := Some p\<rparr>;
            w = w @ [LinkProgram p, GetLinkStatus p]
        in if \<not> LINK_STATUS c p
           then (let e = Error (''Unable to ling program \"'' @ this_name this @ ''\"'')
                 in (Inl e, (this, w @ [Raised e])))
           else
             let w = w @ [ValidateProgram p, GetValidateStatus p]
             in if \<not> VALIDATE_STATUS c p
                then (let e = Error (''Unable to validate program \"'' @ this_name this @ ''\"'')
                      in (Inl e, (this, w @ [Raised e])))
                else (Inr (), (this, w)))"

text \<open>
  \<open>qualify(parameter)\<close> (lines 109 to 123). The two context functions are chosen by
  name from \<open>QUALIFYING_FUNCTION\<close>: \<open>getActiveUniform\<close> and \<open>getUniformLocation\<close> for
  the uniforms, \<open>getActiveAttrib\<close> and \<open>getAttribLocation\<close> for the attributes.
\<close>

definition a_func :: "gl_context \<Rightarrow> parameter \<Rightarrow> gl_program \<Rightarrow> nat \<Rightarrow> string option" where
  "a_func c parameter =
     (if ''getActive'' @ QUALIFYING_FUNCTION parameter = ''getActiveUniform''
      then getActiveUniform c else getActiveAttrib c)"

definition l_func :: "gl_context \<Rightarrow> parameter \<Rightarrow> gl_program \<Rightarrow> string \<Rightarrow> location" where
  "l_func c parameter =
     (if ''get'' @ QUALIFYING_FUNCTION parameter @ ''Location'' = ''getUniformLocation''
      then getUniformLocation c else getAttribLocation c)"

text \<open>
  The loop of lines 117 to 122, from index \<open>idx\<close> on. Reading \<open>info.name\<close> throws a
  TypeError when the context returns \<open>null\<close>; what has been set so far stays set.
\<close>

function qualify_loop ::
  "gl_program \<Rightarrow> parameter \<Rightarrow> nat \<Rightarrow> nat \<Rightarrow> state \<Rightarrow> (js_error + unit) \<times> state"
where
  "qualify_loop p parameter idx num (this, w) =
     (if idx < num then
        (case a_func (this_context this) parameter p idx of
           None \<Rightarrow> (Inl (TypeError ''info is null''),
                    (this, w @ [GetActive parameter p idx, Raised (TypeError ''info is null'')]))
         | Some info_name \<Rightarrow>
             qualify_loop p parameter (Suc idx) num
               (this\<lparr>this_parameters := (this_parameters this)
                   (parameter := Map_set info_name (l_func (this_context this) parameter p info_name)
                                   (this_parameters this parameter))\<rparr>,
                w @ [GetActive parameter p idx, GetLocation parameter p info_name]))
      else (Inr (), (this, w)))"
  by pat_completeness auto
termination
  by (relation "measure (\<lambda>(p, parameter, idx, num, s). num - idx)") auto

text \<open>
  The program argument of \<open>getProgramParameter\<close> is not nullable: with
  \<open>this._program\<close> still \<open>undefined\<close> the call throws a TypeError.
\<close>

definition qualify :: "parameter \<Rightarrow> state \<Rightarrow> (js_error + unit) \<times> state" where
  "qualify parameter s =
     (case s of (this, w) \<Rightarrow>
        (case this_program this of
           None \<Rightarrow> (Inl (TypeError ''program is undefined''),
                    (this, w @ [Raised (TypeError ''program is undefined'')]))
         | Some p \<Rightarrow>
             let num = ACTIVE (this_context this) p parameter
             in qualify_loop p parameter 0 num (this, w @ [GetActiveCount p parameter])))"

text \<open>
  \<open>qualifyAll()\<close> (lines 100 to 107): \<open>qualify\<close> returns \<open>undefined\<close>, and
  \<open>Promise.all\<close> of an array of two values that are not promises is fulfilled with
  that array.
\<close>

datatype js_value =
    Undefined
  | Array "js_value list"
  | ShaderObject shader
  | ProgramObject gl_program

definition qualifyAll :: "state \<Rightarrow> js_value promise \<times> state" where
  "qualifyAll s =
     (case qualify ACTIVE_UNIFORMS s of
        (Inl e, s1) \<Rightarrow> (Rejected e, s1)
      | (Inr u, s1) \<Rightarrow>
          (case qualify ACTIVE_ATTRIBUTES s1 of
             (Inl e, s2) \<Rightarrow> (Rejected e, s2)
           | (Inr u', s2) \<Rightarrow> (Fulfilled (Array [Undefined, Undefined]), s2)))"

text \<open>
  \<open>ready()\<close> (lines 48 to 57). Both \<open>createShader\<close> calls are made at once; their
  chains are then run in the order in which they settle; \<open>compileProgram\<close> runs when
  \<open>Promise.all\<close> is fulfilled and \<open>qualifyAll\<close> when \<open>compileProgram\<close> has returned.
  The result is the final state of the returned promise, the list of the states the
  instance is in after each callback (the first is the state at the call, the last
  the final one), and the events. Within a callback the fields \<open>_shaders\<close> and
  \<open>_program\<close> are written once, so the states in between add nothing for them; the
  loop of \<open>qualify\<close> writes the Maps of parameters only. A callback of the stage
  that settles second runs also when the returned promise is already rejected.
\<close>

record run =
  outcome :: "js_value promise"
  states :: "Program list"
  events :: "event list"

definition ready :: "network \<Rightarrow> state \<Rightarrow> run" where
  "ready net s0 =
     (let (vertex, s1) = createShader net VERTEX_SHADER s0;
          (fragment, s2) = createShader net FRAGMENT_SHADER s1;
          (pv, pf, s3, s4) =
            (if first net = VERTEX_SHADER
             then (let (pv, s3) = vertex s2; (pf, s4) = fragment s3 in (pv, pf, s3, s4))
             else (let (pf, s3) = fragment s2; (pv, s4) = vertex s3 in (pv, pf, s3, s4)));
          before = [fst s0, fst s3, fst s4]
      in case Promise_all (first net) pv pf of
           Pending \<Rightarrow> \<lparr>outcome = Pending, states = before, events = snd s4\<rparr>
         | Rejected e \<Rightarrow> \<lparr>outcome = Rejected e, states = before, events = snd s4\<rparr>
         | Fulfilled shaders \<Rightarrow>
             (case compileProgram shaders s4 of
                (Inl e, s5) \<Rightarrow>
                  \<lparr>outcome = Rejected e, states = before @ [fst s5], events = snd s5\<rparr>
              | (Inr u, s5) \<Rightarrow>
                  (case qualifyAll s5 of
                     (p, s6) \<Rightarrow>
                       \<lparr>outcome = p, states = before @ [fst s5, fst s6], events = snd s6\<rparr>)))"

definition final :: "run \<Rightarrow> Program" where
  "final r = last (states r)"

text \<open>
  The states an instance can be in: the one the constructor returns, and every state
  it passes through in a call of \<open>ready()\<close> made in a state it can be in.
\<close>

inductive reachable :: "Program \<Rightarrow> bool" where
  constructed: "constructor ctx name path_arg w = (Inr this, w') \<Longrightarrow> reachable this"
| in_ready: "reachable this \<Longrightarrow> this' \<in> set (states (ready net (this, w))) \<Longrightarrow> reachable this'"

subsection \<open>Vec3.copy and Vec3.clone\<close>

text \<open>
  A \<open>Vec3\<close> holds a \<open>Float32Array\<close> of three components. An identifier in a method
  body is looked up among the bindings in scope (the parameters of the method and
  the class \<open>Vec3\<close> of the module); the module is in strict mode, so an identifier
  with no binding throws a ReferenceError. The statements of \<open>copy\<close> read \<open>v\<close>, the
  parameter is \<open>v3\<close>; \<open>clone\<close> applies \<open>new\<close> to \<open>v3\<close>, which no binding in scope
  has.
\<close>

datatype 'f Vec3 = Vec3 (v0: 'f) (v1: 'f) (v2: 'f)

datatype 'f binding = Value "'f Vec3" | Class_Vec3

definition resolve :: "(string \<times> 'f binding) list \<Rightarrow> string \<Rightarrow> js_error + 'f binding" where
  "resolve scope x =
     (case map_of scope x of
        None \<Rightarrow> Inl (ReferenceError (x @ '' is not defined''))
      | Some b \<Rightarrow> Inr b)"

text \<open>\<open>copy(v3)\<close> (lines 28 to 33): the result and the vector \<open>this\<close> afterwards.\<close>

definition copy :: "'f Vec3 \<Rightarrow> 'f Vec3 \<Rightarrow> (js_error + 'f Vec3) \<times> 'f Vec3" where
  "copy this v3 =
     (case resolve [(''v3'', Value v3), (''Vec3'', Class_Vec3)] ''v'' of
        Inl e \<Rightarrow> (Inl e, this)
      | Inr Class_Vec3 \<Rightarrow> (Inl (TypeError ''v._v is undefined''), this)
      | Inr (Value v) \<Rightarrow> (Inr (Vec3 (v0 v) (v1 v) (v2 v)), Vec3 (v0 v) (v1 v) (v2 v)))"

text \<open>\<open>clone()\<close> (lines 39 to 41).\<close>

definition clone :: "'f Vec3 \<Rightarrow> js_error + 'f Vec3" where
  "clone this =
     (case resolve [(''Vec3'', Class_Vec3 :: 'f binding)] ''v3'' of
        Inl e \<Rightarrow> Inl e
      | Inr (Value v) \<Rightarrow> Inl (TypeError ''v3 is not a constructor'')
      | Inr Class_Vec3 \<Rightarrow> Inr (Vec3 (v0 this) (v1 this) (v2 this)))"

subsection \<open>Notions used in the statements\<close>

text \<open>The first error raised in a list of events.\<close>

fun first_raised :: "event list \<Rightarrow> js_error option" where
  "first_raised [] = None"
| "first_raised (ev # w) = (case ev of Raised e \<Rightarrow> Some e | _ \<Rightarrow> first_raised w)"

text \<open>The calls that validate a program, and the calls that introspect it.\<close>

definition is_validation :: "event \<Rightarrow> bool" where
  "is_validation ev =
     (case ev of ValidateProgram p \<Rightarrow> True | GetValidateStatus p \<Rightarrow> True | _ \<Rightarrow> False)"

definition is_introspection :: "event \<Rightarrow> bool" where
  "is_introspection ev =
     (case ev of GetActiveCount p parameter \<Rightarrow> True | GetActive parameter p idx \<Rightarrow> True
      | GetLocation parameter p n \<Rightarrow> True | _ \<Rightarrow> False)"

text \<open>
  The loop of \<open>qualify\<close> in closed form: the names the context reports at the indices
  from \<open>idx\<close> up to \<open>num\<close> (up to the first \<open>null\<close>), whether it reports one at each
  index, and the Map after \<open>set(k, f k)\<close> for each key of a list.
\<close>

definition active_names :: "(nat \<Rightarrow> string option) \<Rightarrow> nat \<Rightarrow> nat \<Rightarrow> string list" where
  "active_names g idx num = map the (takeWhile (\<lambda>x. x \<noteq> None) (map g [idx..<num]))"

definition all_named :: "(nat \<Rightarrow> string option) \<Rightarrow> nat \<Rightarrow> nat \<Rightarrow> bool" where
  "all_named g idx num = list_all (\<lambda>i. g i \<noteq> None) [idx..<num]"

definition set_all :: "('k \<Rightarrow> 'v) \<Rightarrow> 'k list \<Rightarrow> ('k \<times> 'v) list \<Rightarrow> ('k \<times> 'v) list" where
  "set_all f ks m = foldl (\<lambda>m k. Map_set k (f k) m) m ks"

definition after_qualify :: "parameter \<Rightarrow> Program \<Rightarrow> Program" where
  "after_qualify par this =
     (case this_program this of
        None \<Rightarrow> this
      | Some p \<Rightarrow>
          this\<lparr>this_parameters := (this_parameters this)
            (par := set_all (l_func (this_context this) par p)
                      (active_names (a_func (this_context this) par p) 0
                         (ACTIVE (this_context this) p par))
                      (this_parameters this par))\<rparr>)"

subsection \<open>A context and a network to run the pipeline on\<close>

text \<open>
  The program "basic" under the default path. The context accepts the two sources
  the network serves and no other, links and validates every program, and reports
  the attributes and the uniforms of the vertex shader of the repository.
\<close>

definition vert_src :: string where
  "vert_src = ''void main(void) { gl_Position = vec4(0.0); }''"

definition frag_src :: string where
  "frag_src = ''void main(void) { }''"

definition basic_context :: gl_context where
  "basic_context =
     \<lparr> COMPILE_STATUS = (\<lambda>sh. case sh of Shader t src \<Rightarrow> src = vert_src \<or> src = frag_src),
       getShaderInfoLog = (\<lambda>sh. case sh of
           Shader VERTEX_SHADER src \<Rightarrow> Some ''ERROR: vertex''
         | Shader FRAGMENT_SHADER src \<Rightarrow> Some ''ERROR: fragment''),
       LINK_STATUS = (\<lambda>p. True),
       VALIDATE_STATUS = (\<lambda>p. True),
       ACTIVE = (\<lambda>p parameter. 2),
       getActiveUniform = (\<lambda>p idx. if idx = 0 then Some ''model''
                                    else if idx = 1 then Some ''view_projection'' else None),
       getActiveAttrib = (\<lambda>p idx. if idx = 0 then Some ''position''
                                   else if idx = 1 then Some ''color'' else None),
       getUniformLocation = (\<lambda>p n. if n = ''model'' then Location 0
                                     else if n = ''view_projection'' then Location 1 else Null),
       getAttribLocation = (\<lambda>p n. if n = ''position'' then Location 0
                                    else if n = ''color'' then Location 1 else Location (- 1)) \<rparr>"

definition basic_network :: network where
  "basic_network =
     \<lparr> fetch = (\<lambda>url. if url = ''/shaders/basic/basic.vert''
                       then Fulfilled (Response 200 (Fulfilled vert_src))
                       else if url = ''/shaders/basic/basic.frag''
                       then Fulfilled (Response 200 (Fulfilled frag_src))
                       else Fulfilled (Response 404 (Fulfilled ''Not Found''))),
       first = VERTEX_SHADER \<rparr>"

definition basic :: Program where
  "basic =
     \<lparr> this_context = basic_context,
       this_name = ''basic'',
       this_shaders = [],
       this_program = None,
       this_parameters = (\<lambda>_. []),
       this_path = ''/shaders/basic/'' \<rparr>"

definition basic_program :: gl_program where
  "basic_program = GLProgram [Shader VERTEX_SHADER vert_src, Shader FRAGMENT_SHADER frag_src]"

text \<open>
  Variants: a context that links no program, one that validates none, one that
  compiles no shader; a network on which the fragment stage settles first, one on
  which every fetch fails, one on which the fetch of the vertex source fails, and two
  on which the vertex source is not found (the server answers 404, with an error page
  or with a body that happens to compile).
\<close>

definition unlinkable_context :: gl_context where
  "unlinkable_context = basic_context\<lparr>LINK_STATUS := (\<lambda>p. False)\<rparr>"

definition invalid_context :: gl_context where
  "invalid_context = basic_context\<lparr>VALIDATE_STATUS := (\<lambda>p. False)\<rparr>"

definition broken_context :: gl_context where
  "broken_context = basic_context\<lparr>COMPILE_STATUS := (\<lambda>sh. False)\<rparr>"

definition fragment_first_network :: network where
  "fragment_first_network = basic_network\<lparr>first := FRAGMENT_SHADER\<rparr>"

definition offline_network :: network where
  "offline_network = basic_network\<lparr>fetch := (\<lambda>url. Rejected (TypeError ''Failed to fetch''))\<rparr>"

definition vertex_down_network :: network where
  "vertex_down_network =
     basic_network\<lparr>fetch := (\<lambda>url. if url = ''/shaders/basic/basic.frag''
                                      then Fulfilled (Response 200 (Fulfilled frag_src))
                                      else Rejected (TypeError ''Failed to fetch''))\<rparr>"

definition not_found_network :: network where
  "not_found_network =
     basic_network\<lparr>fetch := (\<lambda>url. if url = ''/shaders/basic/basic.frag''
                                      then Fulfilled (Response 200 (Fulfilled frag_src))
                                      else Fulfilled (Response 404 (Fulfilled ''Not Found'')))\<rparr>"

definition not_found_glsl_network :: network where
  "not_found_glsl_network =
     basic_network\<lparr>fetch := (\<lambda>url. if url = ''/shaders/basic/basic.frag''
                                      then Fulfilled (Response 200 (Fulfilled frag_src))
                                      else Fulfilled (Response 404 (Fulfilled vert_src)))\<rparr>"

text \<open>
  The invariant behind C6: every shader in the Map of shaders has compiled, and the
  program is set only when the Map has a shader for both stages.
\<close>

definition shaders_ok :: "Program \<Rightarrow> bool" where
  "shaders_ok this =
     ((\<forall>t sh. Map_get (this_shaders this) t = Some sh \<longrightarrow> COMPILE_STATUS (this_context this) sh)
      \<and> (this_program this \<noteq> None \<longrightarrow>
            Map_get (this_shaders this) VERTEX_SHADER \<noteq> None
            \<and> Map_get (this_shaders this) FRAGMENT_SHADER \<noteq> None))"

section \<open>Properties\<close>

subsection \<open>Auxiliary lemmas\<close>

declare qualify_loop.simps [simp del]

lemma endsWith_slash: "endsWith s ''/'' \<longleftrightarrow> s \<noteq> [] \<and> last s = CHR ''/''"
proof (cases s rule: rev_cases)
  case Nil
  then show ?thesis by (simp add: endsWith_def)
next
  case (snoc ys y)
  then show ?thesis by (simp add: endsWith_def)
qed

lemma constructor_Inr:
  assumes "constructor ctx name path_arg w = (Inr this, w')"
  shows "this_context this = ctx" and "this_name this = the name" and "this_shaders this = []"
    and "this_program this = None" and "this_parameters this = (\<lambda>_. [])" and "w' = w"
    and "name \<noteq> None" and "name \<noteq> Some []"
  using assms by (auto simp add: constructor_def Let_def fun_eq_iff split: if_splits)

lemma constructor_basic: "constructor basic_context (Some ''basic'') None [] = (Inr basic, [])"
  by (simp add: constructor_def basic_def DEFAULT_SHADER_PATH_def endsWith_def fun_eq_iff)

lemma constructor_basic_in:
  "constructor c (Some ''basic'') None [] = (Inr (basic\<lparr>this_context := c\<rparr>), [])"
  by (simp add: constructor_def basic_def DEFAULT_SHADER_PATH_def endsWith_def fun_eq_iff)

lemma a_func_simps [simp]:
  "a_func c ACTIVE_UNIFORMS = getActiveUniform c"
  "a_func c ACTIVE_ATTRIBUTES = getActiveAttrib c"
  by (simp_all add: a_func_def)

lemma l_func_simps [simp]:
  "l_func c ACTIVE_UNIFORMS = getUniformLocation c"
  "l_func c ACTIVE_ATTRIBUTES = getAttribLocation c"
  by (simp_all add: l_func_def)

subsection \<open>The Map and the loop of qualify\<close>

lemma first_raised_append:
  "first_raised (w @ w') = (case first_raised w of None \<Rightarrow> first_raised w' | Some e \<Rightarrow> Some e)"
  by (induction w) (auto split: event.splits)

lemma map_of_Map_set: "map_of (Map_set k v m) = (map_of m)(k \<mapsto> v)"
  by (induction m) (auto simp add: fun_eq_iff)

lemma keys_Map_set: "fst ` set (Map_set k v m) = insert k (fst ` set m)"
  by (simp add: map_of_Map_set flip: dom_map_of_conv_image_fst)

lemma distinct_Map_set: "distinct (map fst m) \<Longrightarrow> distinct (map fst (Map_set k v m))"
  by (induction m) (auto simp add: keys_Map_set simp flip: image_set)

lemma Map_set_same: "map_of m k = Some v \<Longrightarrow> Map_set k v m = m"
  by (induction m) (auto split: if_splits)

lemma set_all_Nil [simp]: "set_all f [] m = m"
  by (simp add: set_all_def)

lemma set_all_Cons [simp]: "set_all f (k # ks) m = set_all f ks (Map_set k (f k) m)"
  by (simp add: set_all_def)

lemma map_of_set_all:
  "map_of (set_all f ks m) k = (if k \<in> set ks then Some (f k) else map_of m k)"
  by (induction ks arbitrary: m) (auto simp add: map_of_Map_set)

lemma keys_set_all: "fst ` set (set_all f ks m) = set ks \<union> fst ` set m"
  by (induction ks arbitrary: m) (simp_all add: keys_Map_set)

lemma distinct_set_all: "distinct (map fst m) \<Longrightarrow> distinct (map fst (set_all f ks m))"
  by (induction ks arbitrary: m) (auto simp add: distinct_Map_set)

lemma set_all_fixed: "\<forall>k \<in> set ks. map_of m k = Some (f k) \<Longrightarrow> set_all f ks m = m"
  by (induction ks arbitrary: m) (auto simp add: Map_set_same)

lemma set_all_idem: "set_all f ks (set_all f ks m) = set_all f ks m"
  by (rule set_all_fixed) (simp add: map_of_set_all)

lemma active_names_stop: "\<not> idx < num \<Longrightarrow> active_names g idx num = []"
  by (simp add: active_names_def)

lemma active_names_None: "idx < num \<Longrightarrow> g idx = None \<Longrightarrow> active_names g idx num = []"
  by (simp add: active_names_def upt_conv_Cons)

lemma active_names_Some:
  "idx < num \<Longrightarrow> g idx = Some n \<Longrightarrow> active_names g idx num = n # active_names g (Suc idx) num"
  by (simp add: active_names_def upt_conv_Cons)

lemma all_named_stop: "\<not> idx < num \<Longrightarrow> all_named g idx num"
  by (simp add: all_named_def)

lemma all_named_None: "idx < num \<Longrightarrow> g idx = None \<Longrightarrow> \<not> all_named g idx num"
  by (simp add: all_named_def upt_conv_Cons)

lemma all_named_Some:
  "idx < num \<Longrightarrow> g idx = Some n \<Longrightarrow> all_named g idx num = all_named g (Suc idx) num"
  by (simp add: all_named_def upt_conv_Cons)

lemma all_named_iff: "all_named g idx num \<longleftrightarrow> (\<forall>i. idx \<le> i \<and> i < num \<longrightarrow> g i \<noteq> None)"
  by (auto simp add: all_named_def list_all_iff)

lemma active_names_all:
  "all_named g idx num \<Longrightarrow> active_names g idx num = map (\<lambda>i. the (g i)) [idx..<num]"
proof -
  assume "all_named g idx num"
  then have "\<forall>x \<in> set (map g [idx..<num]). x \<noteq> None"
    by (auto simp add: all_named_def list_all_iff)
  then have "takeWhile (\<lambda>x. x \<noteq> None) (map g [idx..<num]) = map g [idx..<num]"
    by (rule takeWhile_eq_all_conv [THEN iffD2])
  then show ?thesis by (simp only: active_names_def map_map comp_def)
qed

text \<open>The loop in closed form: its result, the instance and the first error raised.\<close>

lemma qualify_loop_result:
  "fst (qualify_loop p par idx num (this, w)) =
     (if all_named (a_func (this_context this) par p) idx num then Inr ()
      else Inl (TypeError ''info is null''))"
proof (induction p par idx num "(this, w)" arbitrary: this w rule: qualify_loop.induct)
  case (1 p par idx num this w)
  show ?case
  proof (cases "idx < num")
    case False
    then show ?thesis by (simp add: qualify_loop.simps all_named_stop)
  next
    case True
    show ?thesis
    proof (cases "a_func (this_context this) par p idx")
      case None
      with True show ?thesis by (simp add: qualify_loop.simps all_named_None)
    next
      case (Some n)
      with True 1 show ?thesis
        by (subst qualify_loop.simps) (simp add: all_named_Some)
    qed
  qed
qed

lemma qualify_loop_state:
  "fst (snd (qualify_loop p par idx num (this, w))) =
     this\<lparr>this_parameters := (this_parameters this)
       (par := set_all (l_func (this_context this) par p)
                 (active_names (a_func (this_context this) par p) idx num)
                 (this_parameters this par))\<rparr>"
proof (induction p par idx num "(this, w)" arbitrary: this w rule: qualify_loop.induct)
  case (1 p par idx num this w)
  show ?case
  proof (cases "idx < num")
    case False
    then show ?thesis by (simp add: qualify_loop.simps active_names_stop)
  next
    case True
    show ?thesis
    proof (cases "a_func (this_context this) par p idx")
      case None
      with True show ?thesis by (simp add: qualify_loop.simps active_names_None)
    next
      case (Some n)
      with True 1 show ?thesis
        by (subst qualify_loop.simps) (simp add: active_names_Some)
    qed
  qed
qed

lemma qualify_loop_raised:
  "first_raised (snd (snd (qualify_loop p par idx num (this, w)))) =
     (case first_raised w of
        Some e \<Rightarrow> Some e
      | None \<Rightarrow> (if all_named (a_func (this_context this) par p) idx num then None
                 else Some (TypeError ''info is null'')))"
proof (induction p par idx num "(this, w)" arbitrary: this w rule: qualify_loop.induct)
  case (1 p par idx num this w)
  show ?case
  proof (cases "idx < num")
    case False
    then show ?thesis by (simp add: qualify_loop.simps all_named_stop split: option.splits)
  next
    case True
    show ?thesis
    proof (cases "a_func (this_context this) par p idx")
      case None
      with True show ?thesis
        by (simp add: qualify_loop.simps all_named_None first_raised_append split: option.splits)
    next
      case (Some n)
      with True 1 show ?thesis
        by (subst qualify_loop.simps) (simp add: all_named_Some first_raised_append split: option.splits)
    qed
  qed
qed

lemma qualify_result:
  "fst (qualify par (this, w)) =
     (case this_program this of
        None \<Rightarrow> Inl (TypeError ''program is undefined'')
      | Some p \<Rightarrow>
          if all_named (a_func (this_context this) par p) 0 (ACTIVE (this_context this) p par)
          then Inr () else Inl (TypeError ''info is null''))"
  by (simp add: qualify_def qualify_loop_result split: option.splits)

lemma qualify_state: "fst (snd (qualify par (this, w))) = after_qualify par this"
  by (simp add: qualify_def after_qualify_def qualify_loop_state split: option.splits)

lemma qualify_raised:
  "first_raised (snd (snd (qualify par (this, w)))) =
     (case first_raised w of
        Some e \<Rightarrow> Some e
      | None \<Rightarrow> (case fst (qualify par (this, w)) of Inl e \<Rightarrow> Some e | Inr u \<Rightarrow> None))"
  by (simp add: qualify_def qualify_loop_result qualify_loop_raised first_raised_append
      split: option.splits)

lemma after_qualify_fields [simp]:
  "this_context (after_qualify par this) = this_context this"
  "this_name (after_qualify par this) = this_name this"
  "this_shaders (after_qualify par this) = this_shaders this"
  "this_program (after_qualify par this) = this_program this"
  "this_path (after_qualify par this) = this_path this"
  "q \<noteq> par \<Longrightarrow> this_parameters (after_qualify par this) q = this_parameters this q"
  by (simp_all add: after_qualify_def split: option.splits)

lemma after_qualify_idem: "after_qualify par (after_qualify par this) = after_qualify par this"
  by (simp add: after_qualify_def set_all_idem split: option.splits)

lemma qualify_result_indep: "fst (qualify par (this, w)) = fst (qualify par (this, []))"
  by (simp add: qualify_result)

lemma qualify_result_after:
  "fst (qualify par (after_qualify par' this, w)) = fst (qualify par (this, []))"
  by (simp add: qualify_result split: option.splits)

lemma qualify_cases:
  obtains w' where
    "qualify par (this, w) = (fst (qualify par (this, [])), (after_qualify par this, w'))"
    and "first_raised w' =
      (case first_raised w of
         Some e \<Rightarrow> Some e
       | None \<Rightarrow> (case fst (qualify par (this, [])) of Inl e \<Rightarrow> Some e | Inr u \<Rightarrow> None))"
proof
  show "qualify par (this, w) =
      (fst (qualify par (this, [])), (after_qualify par this, snd (snd (qualify par (this, w)))))"
    using qualify_result_indep [of par this w] qualify_state [of par this w]
    by (simp add: prod_eq_iff)
  show "first_raised (snd (snd (qualify par (this, w)))) =
      (case first_raised w of
         Some e \<Rightarrow> Some e
       | None \<Rightarrow> (case fst (qualify par (this, [])) of Inl e \<Rightarrow> Some e | Inr u \<Rightarrow> None))"
    using qualify_raised [of par this w] qualify_result_indep [of par this w]
    by (simp split: option.splits)
qed

lemma qualifyAll_result:
  "fst (qualifyAll (this, w)) =
     (case fst (qualify ACTIVE_UNIFORMS (this, [])) of
        Inl e \<Rightarrow> Rejected e
      | Inr u \<Rightarrow>
          (case fst (qualify ACTIVE_ATTRIBUTES (this, [])) of
             Inl e \<Rightarrow> Rejected e
           | Inr u' \<Rightarrow> Fulfilled (Array [Undefined, Undefined])))"
proof -
  obtain w1 where q1: "qualify ACTIVE_UNIFORMS (this, w) =
      (fst (qualify ACTIVE_UNIFORMS (this, [])), (after_qualify ACTIVE_UNIFORMS this, w1))"
    by (rule qualify_cases)
  obtain w2 where q2: "qualify ACTIVE_ATTRIBUTES (after_qualify ACTIVE_UNIFORMS this, w1) =
      (fst (qualify ACTIVE_ATTRIBUTES (after_qualify ACTIVE_UNIFORMS this, [])),
       (after_qualify ACTIVE_ATTRIBUTES (after_qualify ACTIVE_UNIFORMS this), w2))"
    by (rule qualify_cases)
  show ?thesis
    by (simp add: qualifyAll_def q1 q2 qualify_result_after split: sum.splits)
qed

lemma qualifyAll_state:
  "fst (snd (qualifyAll (this, w))) =
     (case fst (qualify ACTIVE_UNIFORMS (this, [])) of
        Inl e \<Rightarrow> after_qualify ACTIVE_UNIFORMS this
      | Inr u \<Rightarrow> after_qualify ACTIVE_ATTRIBUTES (after_qualify ACTIVE_UNIFORMS this))"
proof -
  obtain w1 where q1: "qualify ACTIVE_UNIFORMS (this, w) =
      (fst (qualify ACTIVE_UNIFORMS (this, [])), (after_qualify ACTIVE_UNIFORMS this, w1))"
    by (rule qualify_cases)
  obtain w2 where q2: "qualify ACTIVE_ATTRIBUTES (after_qualify ACTIVE_UNIFORMS this, w1) =
      (fst (qualify ACTIVE_ATTRIBUTES (after_qualify ACTIVE_UNIFORMS this, [])),
       (after_qualify ACTIVE_ATTRIBUTES (after_qualify ACTIVE_UNIFORMS this), w2))"
    by (rule qualify_cases)
  show ?thesis
    by (simp add: qualifyAll_def q1 q2 qualify_result_after split: sum.splits)
qed

lemma qualifyAll_raised:
  "first_raised (snd (snd (qualifyAll (this, w)))) =
     (case first_raised w of
        Some e \<Rightarrow> Some e
      | None \<Rightarrow> (case fst (qualifyAll (this, w)) of Rejected e \<Rightarrow> Some e | _ \<Rightarrow> None))"
proof -
  obtain w1 where q1: "qualify ACTIVE_UNIFORMS (this, w) =
      (fst (qualify ACTIVE_UNIFORMS (this, [])), (after_qualify ACTIVE_UNIFORMS this, w1))"
    and r1: "first_raised w1 =
      (case first_raised w of
         Some e \<Rightarrow> Some e
       | None \<Rightarrow> (case fst (qualify ACTIVE_UNIFORMS (this, [])) of Inl e \<Rightarrow> Some e | Inr u \<Rightarrow> None))"
    by (rule qualify_cases)
  obtain w2 where q2: "qualify ACTIVE_ATTRIBUTES (after_qualify ACTIVE_UNIFORMS this, w1) =
      (fst (qualify ACTIVE_ATTRIBUTES (after_qualify ACTIVE_UNIFORMS this, [])),
       (after_qualify ACTIVE_ATTRIBUTES (after_qualify ACTIVE_UNIFORMS this), w2))"
    and r2: "first_raised w2 =
      (case first_raised w1 of
         Some e \<Rightarrow> Some e
       | None \<Rightarrow> (case fst (qualify ACTIVE_ATTRIBUTES (after_qualify ACTIVE_UNIFORMS this, [])) of
                    Inl e \<Rightarrow> Some e | Inr u \<Rightarrow> None))"
    by (rule qualify_cases)
  show ?thesis
    using r1 r2
    by (simp add: qualifyAll_def q1 q2 qualify_result_after split: sum.splits option.splits)
qed

lemma after_qualify_commute:
  "par \<noteq> par' \<Longrightarrow>
     after_qualify par (after_qualify par' this) = after_qualify par' (after_qualify par this)"
  by (simp add: after_qualify_def fun_upd_twist split: option.splits)

lemma after_qualifyAll_idem:
  "after_qualify ACTIVE_ATTRIBUTES (after_qualify ACTIVE_UNIFORMS
     (after_qualify ACTIVE_ATTRIBUTES (after_qualify ACTIVE_UNIFORMS this))) =
   after_qualify ACTIVE_ATTRIBUTES (after_qualify ACTIVE_UNIFORMS this)"
proof -
  have "after_qualify ACTIVE_UNIFORMS (after_qualify ACTIVE_ATTRIBUTES (after_qualify ACTIVE_UNIFORMS this))
      = after_qualify ACTIVE_ATTRIBUTES (after_qualify ACTIVE_UNIFORMS (after_qualify ACTIVE_UNIFORMS this))"
    by (rule after_qualify_commute) simp
  then show ?thesis by (simp add: after_qualify_idem)
qed

subsection \<open>The pipeline, stage by stage\<close>

lemmas ready_defs = ready_def createShader_def createShader_then_def compileProgram_def
  attachShader_def Let_def case_prod_beta

lemma after_qualify_parameters:
  "this_program this = Some p \<Longrightarrow>
     this_parameters (after_qualify par this) par =
       set_all (l_func (this_context this) par p)
         (active_names (a_func (this_context this) par p) 0 (ACTIVE (this_context this) p par))
         (this_parameters this par)"
  by (simp add: after_qualify_def)

text \<open>The run in which both sources arrive and compile and the program links and validates.\<close>

lemma ready_success:
  assumes "fetch_text net (shader_file this VERTEX_SHADER) = Fulfilled vs"
    and "fetch_text net (shader_file this FRAGMENT_SHADER) = Fulfilled fs"
    and "COMPILE_STATUS (this_context this) (Shader VERTEX_SHADER vs)"
    and "COMPILE_STATUS (this_context this) (Shader FRAGMENT_SHADER fs)"
    and "p = GLProgram [Shader VERTEX_SHADER vs, Shader FRAGMENT_SHADER fs]"
    and "LINK_STATUS (this_context this) p"
    and "VALIDATE_STATUS (this_context this) p"
  shows "outcome (ready net (this, w)) = fst (qualifyAll (this\<lparr>this_program := Some p\<rparr>, []))"
    and "\<exists>sh. final (ready net (this, w)) =
           fst (snd (qualifyAll (this\<lparr>this_shaders := sh, this_program := Some p\<rparr>, [])))"
proof -
  show "outcome (ready net (this, w)) = fst (qualifyAll (this\<lparr>this_program := Some p\<rparr>, []))"
    using assms
    by (cases "first net"; simp add: ready_defs;
        simp add: qualifyAll_result qualify_result)
  show "\<exists>sh. final (ready net (this, w)) =
           fst (snd (qualifyAll (this\<lparr>this_shaders := sh, this_program := Some p\<rparr>, [])))"
    using assms
    by (cases "first net"; simp add: ready_defs final_def;
        simp add: qualifyAll_state qualify_result split: sum.splits; blast)
qed

lemma qualifyAll_success:
  assumes "this_program this = Some p" and "c = this_context this"
    and "all_named (a_func c ACTIVE_UNIFORMS p) 0 (ACTIVE c p ACTIVE_UNIFORMS)"
    and "all_named (a_func c ACTIVE_ATTRIBUTES p) 0 (ACTIVE c p ACTIVE_ATTRIBUTES)"
  shows "fst (qualifyAll (this, w)) = Fulfilled (Array [Undefined, Undefined])"
    and "this_parameters (fst (snd (qualifyAll (this, w)))) par =
      set_all (l_func c par p) (map (\<lambda>i. the (a_func c par p i)) [0..<ACTIVE c p par])
        (this_parameters this par)"
proof -
  show "fst (qualifyAll (this, w)) = Fulfilled (Array [Undefined, Undefined])"
    using assms by (simp add: qualifyAll_result qualify_result)
  have names: "active_names (a_func c par p) 0 (ACTIVE c p par) =
      map (\<lambda>i. the (a_func c par p i)) [0..<ACTIVE c p par]"
    using assms(3,4) by (cases par) (simp_all add: active_names_all)
  have "fst (snd (qualifyAll (this, w))) =
      after_qualify ACTIVE_ATTRIBUTES (after_qualify ACTIVE_UNIFORMS this)"
    using assms by (simp add: qualifyAll_state qualify_result)
  then show "this_parameters (fst (snd (qualifyAll (this, w)))) par =
      set_all (l_func c par p) (map (\<lambda>i. the (a_func c par p i)) [0..<ACTIVE c p par])
        (this_parameters this par)"
    using assms(1,2) names
    by (cases par) (simp_all add: after_qualify_parameters)
qed

lemma set_all_empty:
  assumes "m = set_all f ks []"
  shows "set (Map_keys m) = set ks" and "distinct (Map_keys m)"
    and "\<forall>k \<in> set (Map_keys m). Map_get m k = Some (f k)"
    and "length m = card (set ks)"
proof -
  show keys: "set (Map_keys m) = set ks"
    using keys_set_all [of f ks "[]"] by (simp add: assms Map_keys_def)
  show dist: "distinct (Map_keys m)"
    by (simp add: assms Map_keys_def distinct_set_all)
  show "\<forall>k \<in> set (Map_keys m). Map_get m k = Some (f k)"
    using keys by (simp add: assms Map_get_def map_of_set_all)
  show "length m = card (set ks)"
    using keys dist distinct_card [of "Map_keys m"] by (simp add: Map_keys_def)
qed

lemma lessThan_2: "{..<2::nat} = {0, 1}"
  by auto

lemma ready_raised:
  "first_raised (events (ready net (this, []))) =
     (case outcome (ready net (this, [])) of Rejected e \<Rightarrow> Some e | _ \<Rightarrow> None)"
  by (cases "first net"; cases "fetch_text net (shader_file this VERTEX_SHADER)";
      cases "fetch_text net (shader_file this FRAGMENT_SHADER)";
      simp add: ready_defs qualifyAll_raised first_raised_append
      split: promise.splits option.splits)

lemmas variant_defs = unlinkable_context_def invalid_context_def broken_context_def
  fragment_first_network_def offline_network_def vertex_down_network_def not_found_network_def
  not_found_glsl_network_def

lemma basic_fields:
  "this_context basic = basic_context" "this_name basic = ''basic''" "this_shaders basic = []"
  "this_program basic = None" "this_parameters basic = (\<lambda>_. [])"
  "this_path basic = ''/shaders/basic/''"
  by (simp_all add: basic_def)

lemma basic_context_answers:
  "COMPILE_STATUS basic_context (Shader t src) = (src = vert_src \<or> src = frag_src)"
  "getShaderInfoLog basic_context (Shader VERTEX_SHADER src) = Some ''ERROR: vertex''"
  "getShaderInfoLog basic_context (Shader FRAGMENT_SHADER src) = Some ''ERROR: fragment''"
  "LINK_STATUS basic_context p" "VALIDATE_STATUS basic_context p"
  "ACTIVE basic_context p par = 2"
  "getActiveUniform basic_context p idx =
     (if idx = 0 then Some ''model'' else if idx = 1 then Some ''view_projection'' else None)"
  "getActiveAttrib basic_context p idx =
     (if idx = 0 then Some ''position'' else if idx = 1 then Some ''color'' else None)"
  "getUniformLocation basic_context p n =
     (if n = ''model'' then Location 0 else if n = ''view_projection'' then Location 1 else Null)"
  "getAttribLocation basic_context p n =
     (if n = ''position'' then Location 0 else if n = ''color'' then Location 1 else Location (- 1))"
  by (simp_all add: basic_context_def)

lemma sources_differ:
  "''Not Found'' \<noteq> vert_src" "''Not Found'' \<noteq> frag_src" "vert_src \<noteq> frag_src"
  "frag_src \<noteq> vert_src"
  by (simp_all add: vert_src_def frag_src_def)

text \<open>The facts that run the pipeline on the program "basic" and its variants.\<close>

lemmas run_simps = ready_defs final_def qualifyAll_def qualify_def qualify_loop.simps
  shader_file_def fetch_text_def basic_network_def variant_defs basic_program_def js_string_def
  basic_fields basic_context_answers sources_differ

lemma states_nonempty: "states (ready net s) \<noteq> []"
  by (simp add: ready_def Let_def case_prod_beta split: promise.splits sum.splits)

lemma final_in_states: "final (ready net s) \<in> set (states (ready net s))"
  by (simp add: final_def states_nonempty)

lemma shaders_ok_after_qualify [simp]: "shaders_ok (after_qualify par this) = shaders_ok this"
  by (simp add: shaders_ok_def)

lemma shaders_ok_ready:
  assumes "shaders_ok this"
  shows "\<forall>s \<in> set (states (ready net (this, w))). shaders_ok s"
proof -
  have a: "shaders_ok (fst (snd (qualifyAll (s, w'))))" if "shaders_ok s" for s w'
    using that by (simp add: qualifyAll_state split: sum.splits)
  have b: "shaders_ok (this\<lparr>this_shaders := Map_set t sh (this_shaders this)\<rparr>)"
    if "COMPILE_STATUS (this_context this) sh" for t sh
    using assms that by (auto simp add: shaders_ok_def Map_get_def map_of_Map_set)
  have c: "shaders_ok (this\<lparr>this_shaders := Map_set t sh (Map_set t' sh' (this_shaders this))\<rparr>)"
    if "COMPILE_STATUS (this_context this) sh" "COMPILE_STATUS (this_context this) sh'" for t sh t' sh'
    using assms that by (auto simp add: shaders_ok_def Map_get_def map_of_Map_set)
  have d: "shaders_ok (this\<lparr>this_shaders := Map_set t sh (Map_set t' sh' (this_shaders this)),
      this_program := Some p\<rparr>)"
    if "COMPILE_STATUS (this_context this) sh" "COMPILE_STATUS (this_context this) sh'" "t \<noteq> t'"
    for t sh t' sh' p
  proof -
    have "t = VERTEX_SHADER \<and> t' = FRAGMENT_SHADER \<or> t = FRAGMENT_SHADER \<and> t' = VERTEX_SHADER"
      using that(3) by (cases t; cases t') simp_all
    then show ?thesis
      using assms that(1,2) by (auto simp add: shaders_ok_def Map_get_def map_of_Map_set)
  qed
  show ?thesis
    using assms
    by (cases "first net"; cases "fetch_text net (shader_file this VERTEX_SHADER)";
        cases "fetch_text net (shader_file this FRAGMENT_SHADER)";
        simp add: ready_defs a b c d)
qed

lemma reachable_final:
  "reachable (final (ready basic_network (basic\<lparr>this_context := c\<rparr>, [])))"
  by (rule in_ready [OF constructed [OF constructor_basic_in] final_in_states])

subsection \<open>Construction\<close>

text \<open>
  C7. A construction whose name is absent or empty throws the Error "Name required
  in order to create a program." (the ConfigurationError of the specification) with
  the list of events as it was: nothing has been fetched and the context has not been
  called. In every case the constructor leaves the list of events as it was.
\<close>

theorem constructor_requires_name:
  "((name = None \<or> name = Some []) \<longrightarrow>
      constructor ctx name path_arg w =
        (Inl (Error ''Name required in order to create a program.''), w))
   \<and> snd (constructor ctx name path_arg w) = w"
  by (simp add: constructor_def Let_def)

theorem constructor_requires_name_witness:
  "constructor basic_context None (Some ''/shaders'') [] =
     (Inl (Error ''Name required in order to create a program.''), [])
   \<and> constructor basic_context (Some []) None [] =
     (Inl (Error ''Name required in order to create a program.''), [])
   \<and> snd (constructor basic_context (Some ''basic'') None []) = []"
  using constructor_requires_name [of None basic_context "Some ''/shaders''" "[]"]
    constructor_requires_name [of "Some []" basic_context None "[]"]
    constructor_requires_name [of "Some ''basic''" basic_context None "[]"]
  by simp

text \<open>
  C8. For a name \<open>N\<close> that is not empty and a base path \<open>P\<close> (the default
  \<open>/shaders/\<close> when the path is omitted), the constructor succeeds and the source of
  the vertex stage is at \<open>B/N/N.vert\<close>, that of the fragment stage at \<open>B/N/N.frag\<close>,
  where \<open>B\<close> is \<open>P\<close> when \<open>P\<close> ends with the separator and \<open>P\<close> followed by the
  separator otherwise.
\<close>

theorem shader_file_location:
  assumes "name \<noteq> []"
    and "P = (case path_arg of None \<Rightarrow> DEFAULT_SHADER_PATH | Some p \<Rightarrow> p)"
    and "B = (if P \<noteq> [] \<and> last P = CHR ''/'' then P else P @ ''/'')"
  shows "\<exists>this. constructor ctx (Some name) path_arg w = (Inr this, w)
           \<and> shader_file this VERTEX_SHADER = B @ name @ ''/'' @ name @ ''.vert''
           \<and> shader_file this FRAGMENT_SHADER = B @ name @ ''/'' @ name @ ''.frag''"
  using assms
  by (auto simp add: constructor_def Let_def shader_file_def endsWith_slash)

text \<open>
  The paths \<open>/shaders\<close> and \<open>/shaders/\<close> and the omitted path all give
  \<open>/shaders/basic/basic.vert\<close> and \<open>/shaders/basic/basic.frag\<close> for the name "basic".
\<close>

theorem shader_file_location_witness:
  "(\<exists>this. constructor basic_context (Some ''basic'') (Some ''/shaders'') [] = (Inr this, [])
      \<and> shader_file this VERTEX_SHADER = ''/shaders/basic/basic.vert''
      \<and> shader_file this FRAGMENT_SHADER = ''/shaders/basic/basic.frag'')
   \<and> (\<exists>this. constructor basic_context (Some ''basic'') (Some ''/shaders/'') [] = (Inr this, [])
      \<and> shader_file this VERTEX_SHADER = ''/shaders/basic/basic.vert''
      \<and> shader_file this FRAGMENT_SHADER = ''/shaders/basic/basic.frag'')
   \<and> (\<exists>this. constructor basic_context (Some ''basic'') None [] = (Inr this, [])
      \<and> shader_file this VERTEX_SHADER = ''/shaders/basic/basic.vert''
      \<and> shader_file this FRAGMENT_SHADER = ''/shaders/basic/basic.frag'')"
  using shader_file_location [of "''basic''" "''/shaders''" "Some ''/shaders''" "''/shaders/''" basic_context "[]"]
    shader_file_location [of "''basic''" "''/shaders/''" "Some ''/shaders/''" "''/shaders/''" basic_context "[]"]
    shader_file_location [of "''basic''" "''/shaders/''" None "''/shaders/''" basic_context "[]"]
  by (simp add: DEFAULT_SHADER_PATH_def)

subsection \<open>The successful run\<close>

text \<open>
  C1. Take an instance as the constructor returns it for a name that is not empty and
  any path, a network that delivers both sources, and a context that reports both
  shaders as compiled and the program with the two shaders attached as linked and
  validated, and that reports a name at every index below the count of active
  uniforms and of active attributes. Then the promise \<open>ready()\<close> returns is fulfilled,
  and in the final state of the instance the Map of the uniforms has as keys exactly
  the names the context reports at the indices \<open>0\<close> to \<open>count - 1\<close>, no key twice, each
  with the location the context gives for that name, and as many entries as there are
  different names reported; the same holds of the Map of the attributes.
\<close>

theorem ready_introspects:
  assumes "constructor ctx (Some name) path_arg w0 = (Inr this, w0')"
    and "fetch_text net (shader_file this VERTEX_SHADER) = Fulfilled vs"
    and "fetch_text net (shader_file this FRAGMENT_SHADER) = Fulfilled fs"
    and "COMPILE_STATUS ctx (Shader VERTEX_SHADER vs)"
    and "COMPILE_STATUS ctx (Shader FRAGMENT_SHADER fs)"
    and "p = GLProgram [Shader VERTEX_SHADER vs, Shader FRAGMENT_SHADER fs]"
    and "LINK_STATUS ctx p"
    and "VALIDATE_STATUS ctx p"
    and "\<forall>i < ACTIVE ctx p ACTIVE_UNIFORMS. getActiveUniform ctx p i \<noteq> None"
    and "\<forall>i < ACTIVE ctx p ACTIVE_ATTRIBUTES. getActiveAttrib ctx p i \<noteq> None"
    and "r = ready net (this, w)"
    and "U = this_parameters (final r) ACTIVE_UNIFORMS"
    and "A = this_parameters (final r) ACTIVE_ATTRIBUTES"
  shows "outcome r = Fulfilled (Array [Undefined, Undefined])
    \<and> set (Map_keys U) = (\<lambda>i. the (getActiveUniform ctx p i)) ` {..<ACTIVE ctx p ACTIVE_UNIFORMS}
    \<and> distinct (Map_keys U)
    \<and> (\<forall>n \<in> set (Map_keys U). Map_get U n = Some (getUniformLocation ctx p n))
    \<and> length U = card ((\<lambda>i. the (getActiveUniform ctx p i)) ` {..<ACTIVE ctx p ACTIVE_UNIFORMS})
    \<and> set (Map_keys A) = (\<lambda>i. the (getActiveAttrib ctx p i)) ` {..<ACTIVE ctx p ACTIVE_ATTRIBUTES}
    \<and> distinct (Map_keys A)
    \<and> (\<forall>n \<in> set (Map_keys A). Map_get A n = Some (getAttribLocation ctx p n))
    \<and> length A = card ((\<lambda>i. the (getActiveAttrib ctx p i)) ` {..<ACTIVE ctx p ACTIVE_ATTRIBUTES})"
proof -
  note c = constructor_Inr [OF assms(1)]
  have named: "all_named (a_func ctx ACTIVE_UNIFORMS p) 0 (ACTIVE ctx p ACTIVE_UNIFORMS)"
    "all_named (a_func ctx ACTIVE_ATTRIBUTES p) 0 (ACTIVE ctx p ACTIVE_ATTRIBUTES)"
    using assms(9,10) by (simp_all add: all_named_iff)
  have r: "outcome r = fst (qualifyAll (this\<lparr>this_program := Some p\<rparr>, []))"
    using ready_success(1) [OF assms(2,3) _ _ assms(6)] assms(4,5,7,8,11) c(1) by simp
  obtain sh where f: "final r =
      fst (snd (qualifyAll (this\<lparr>this_shaders := sh, this_program := Some p\<rparr>, [])))"
    using ready_success(2) [OF assms(2,3) _ _ assms(6)] assms(4,5,7,8,11) c(1) by auto
  have q: "fst (qualifyAll (this\<lparr>this_program := Some p\<rparr>, [])) =
      Fulfilled (Array [Undefined, Undefined])"
    using qualifyAll_success(1) [of "this\<lparr>this_program := Some p\<rparr>" p ctx "[]"] named c
    by simp
  have m: "this_parameters (final r) par =
      set_all (l_func ctx par p) (map (\<lambda>i. the (a_func ctx par p i)) [0..<ACTIVE ctx p par]) []"
    for par
    using qualifyAll_success(2)
      [of "this\<lparr>this_shaders := sh, this_program := Some p\<rparr>" p ctx "[]" par] named c f
    by simp
  have U: "U = set_all (getUniformLocation ctx p)
      (map (\<lambda>i. the (getActiveUniform ctx p i)) [0..<ACTIVE ctx p ACTIVE_UNIFORMS]) []"
    using m [of ACTIVE_UNIFORMS] assms(12) by simp
  have A: "A = set_all (getAttribLocation ctx p)
      (map (\<lambda>i. the (getActiveAttrib ctx p i)) [0..<ACTIVE ctx p ACTIVE_ATTRIBUTES]) []"
    using m [of ACTIVE_ATTRIBUTES] assms(13) by simp
  show ?thesis
    using set_all_empty [OF U] set_all_empty [OF A] r q
    by (simp add: lessThan_atLeast0)
qed

text \<open>
  The program "basic": two uniforms and two attributes are reported, and the two Maps
  have the two entries each, in the order of the indices.
\<close>

theorem ready_introspects_witness:
  "constructor basic_context (Some ''basic'') None [] = (Inr basic, [])
   \<and> fetch_text basic_network (shader_file basic VERTEX_SHADER) = Fulfilled vert_src
   \<and> fetch_text basic_network (shader_file basic FRAGMENT_SHADER) = Fulfilled frag_src
   \<and> COMPILE_STATUS basic_context (Shader VERTEX_SHADER vert_src)
   \<and> COMPILE_STATUS basic_context (Shader FRAGMENT_SHADER frag_src)
   \<and> LINK_STATUS basic_context basic_program
   \<and> VALIDATE_STATUS basic_context basic_program
   \<and> outcome (ready basic_network (basic, [])) = Fulfilled (Array [Undefined, Undefined])
   \<and> set (Map_keys (this_parameters (final (ready basic_network (basic, []))) ACTIVE_UNIFORMS)) =
        {''model'', ''view_projection''}
   \<and> distinct (Map_keys (this_parameters (final (ready basic_network (basic, []))) ACTIVE_UNIFORMS))
   \<and> length (this_parameters (final (ready basic_network (basic, []))) ACTIVE_UNIFORMS) = 2
   \<and> set (Map_keys (this_parameters (final (ready basic_network (basic, []))) ACTIVE_ATTRIBUTES)) =
        {''position'', ''color''}
   \<and> distinct (Map_keys (this_parameters (final (ready basic_network (basic, []))) ACTIVE_ATTRIBUTES))
   \<and> length (this_parameters (final (ready basic_network (basic, []))) ACTIVE_ATTRIBUTES) = 2
   \<and> this_parameters (final (ready basic_network (basic, []))) ACTIVE_UNIFORMS =
        [(''model'', Location 0), (''view_projection'', Location 1)]
   \<and> this_parameters (final (ready basic_network (basic, []))) ACTIVE_ATTRIBUTES =
        [(''position'', Location 0), (''color'', Location 1)]"
proof -
  have fv: "fetch_text basic_network (shader_file basic VERTEX_SHADER) = Fulfilled vert_src"
    and ff: "fetch_text basic_network (shader_file basic FRAGMENT_SHADER) = Fulfilled frag_src"
    by (simp_all add: run_simps)
  have cv: "COMPILE_STATUS basic_context (Shader VERTEX_SHADER vert_src)"
    and cf: "COMPILE_STATUS basic_context (Shader FRAGMENT_SHADER frag_src)"
    and l: "LINK_STATUS basic_context basic_program"
    and v: "VALIDATE_STATUS basic_context basic_program"
    by (simp_all add: basic_context_def)
  have u: "\<forall>i<ACTIVE basic_context basic_program ACTIVE_UNIFORMS.
      getActiveUniform basic_context basic_program i \<noteq> None"
    and a: "\<forall>i<ACTIVE basic_context basic_program ACTIVE_ATTRIBUTES.
      getActiveAttrib basic_context basic_program i \<noteq> None"
    by (simp_all add: basic_context_def)
  have names: "(\<lambda>i. the (getActiveUniform basic_context basic_program i)) `
        {..<ACTIVE basic_context basic_program ACTIVE_UNIFORMS} = {''model'', ''view_projection''}"
    "(\<lambda>i. the (getActiveAttrib basic_context basic_program i)) `
        {..<ACTIVE basic_context basic_program ACTIVE_ATTRIBUTES} = {''position'', ''color''}"
    by (simp_all add: basic_context_def lessThan_2)
  have maps: "this_parameters (final (ready basic_network (basic, []))) ACTIVE_UNIFORMS =
        [(''model'', Location 0), (''view_projection'', Location 1)]"
    "this_parameters (final (ready basic_network (basic, []))) ACTIVE_ATTRIBUTES =
        [(''position'', Location 0), (''color'', Location 1)]"
    by (simp_all add: run_simps)
  show ?thesis
    using ready_introspects [OF constructor_basic fv ff cv cf basic_program_def l v u a refl refl refl,
        of "[]"]
      fv ff cv cf l v maps
    by (simp add: constructor_basic names)
qed

text \<open>
  C2, as amended. When both sources arrive and compile, the program links and
  validates and the context reports a name at every index below the two counts, the
  promise \<open>ready()\<close> returns is fulfilled with the array \<open>[undefined, undefined]\<close>
  of the results of the two calls of \<open>qualify\<close>, and the program (the two shaders
  attached) is in the field \<open>_program\<close> of the instance. The promise is rejected
  with \<open>e\<close> exactly when \<open>e\<close> is the first error raised in the run. (A promise
  settles at most once; the run has one outcome.)
\<close>

theorem ready_settles:
  assumes "r = ready net (this, [])"
    and "c = this_context this"
    and "p = GLProgram [Shader VERTEX_SHADER vs, Shader FRAGMENT_SHADER fs]"
  shows "(fetch_text net (shader_file this VERTEX_SHADER) = Fulfilled vs
          \<and> fetch_text net (shader_file this FRAGMENT_SHADER) = Fulfilled fs
          \<and> COMPILE_STATUS c (Shader VERTEX_SHADER vs)
          \<and> COMPILE_STATUS c (Shader FRAGMENT_SHADER fs)
          \<and> LINK_STATUS c p \<and> VALIDATE_STATUS c p
          \<and> (\<forall>i < ACTIVE c p ACTIVE_UNIFORMS. getActiveUniform c p i \<noteq> None)
          \<and> (\<forall>i < ACTIVE c p ACTIVE_ATTRIBUTES. getActiveAttrib c p i \<noteq> None)
        \<longrightarrow> outcome r = Fulfilled (Array [Undefined, Undefined])
            \<and> this_program (final r) = Some p)
     \<and> (\<forall>e. outcome r = Rejected e \<longleftrightarrow> first_raised (events r) = Some e)"
proof -
  have "outcome r = Fulfilled (Array [Undefined, Undefined]) \<and> this_program (final r) = Some p"
    if f: "fetch_text net (shader_file this VERTEX_SHADER) = Fulfilled vs"
      "fetch_text net (shader_file this FRAGMENT_SHADER) = Fulfilled fs"
      and s: "COMPILE_STATUS c (Shader VERTEX_SHADER vs)" "COMPILE_STATUS c (Shader FRAGMENT_SHADER fs)"
      "LINK_STATUS c p" "VALIDATE_STATUS c p"
      and n: "\<forall>i < ACTIVE c p ACTIVE_UNIFORMS. getActiveUniform c p i \<noteq> None"
      "\<forall>i < ACTIVE c p ACTIVE_ATTRIBUTES. getActiveAttrib c p i \<noteq> None"
  proof -
    have named: "all_named (a_func c ACTIVE_UNIFORMS p) 0 (ACTIVE c p ACTIVE_UNIFORMS)"
      "all_named (a_func c ACTIVE_ATTRIBUTES p) 0 (ACTIVE c p ACTIVE_ATTRIBUTES)"
      using n by (simp_all add: all_named_iff)
    have "outcome r = fst (qualifyAll (this\<lparr>this_program := Some p\<rparr>, []))"
      using ready_success(1) [OF f _ _ assms(3)] s assms(1,2) by simp
    moreover have "fst (qualifyAll (this\<lparr>this_program := Some p\<rparr>, [])) =
        Fulfilled (Array [Undefined, Undefined])"
      using qualifyAll_success(1) [of "this\<lparr>this_program := Some p\<rparr>" p c "[]"] named assms(2)
      by simp
    moreover obtain sh where "final r =
        fst (snd (qualifyAll (this\<lparr>this_shaders := sh, this_program := Some p\<rparr>, [])))"
      using ready_success(2) [OF f _ _ assms(3)] s assms(1,2) by auto
    then have "this_program (final r) = Some p"
      by (simp add: qualifyAll_state split: sum.splits)
    ultimately show ?thesis by simp
  qed
  moreover have "outcome r = Rejected e \<longleftrightarrow> first_raised (events r) = Some e" for e
    using ready_raised [of net this] assms(1) by (auto split: promise.splits)
  ultimately show ?thesis by blast
qed

text \<open>
  The program "basic" run to the end, and run with a context that links no program.
\<close>

theorem ready_settles_witness:
  "outcome (ready basic_network (basic, [])) = Fulfilled (Array [Undefined, Undefined])
   \<and> this_program (final (ready basic_network (basic, []))) = Some basic_program
   \<and> first_raised (events (ready basic_network (basic, []))) = None
   \<and> outcome (ready basic_network (basic\<lparr>this_context := unlinkable_context\<rparr>, [])) =
       Rejected (Error ''Unable to ling program \"basic\"'')
   \<and> first_raised (events (ready basic_network (basic\<lparr>this_context := unlinkable_context\<rparr>, []))) =
       Some (Error ''Unable to ling program \"basic\"'')"
proof -
  have h: "fetch_text basic_network (shader_file basic VERTEX_SHADER) = Fulfilled vert_src
      \<and> fetch_text basic_network (shader_file basic FRAGMENT_SHADER) = Fulfilled frag_src
      \<and> COMPILE_STATUS basic_context (Shader VERTEX_SHADER vert_src)
      \<and> COMPILE_STATUS basic_context (Shader FRAGMENT_SHADER frag_src)
      \<and> LINK_STATUS basic_context basic_program \<and> VALIDATE_STATUS basic_context basic_program
      \<and> (\<forall>i < ACTIVE basic_context basic_program ACTIVE_UNIFORMS.
            getActiveUniform basic_context basic_program i \<noteq> None)
      \<and> (\<forall>i < ACTIVE basic_context basic_program ACTIVE_ATTRIBUTES.
            getActiveAttrib basic_context basic_program i \<noteq> None)"
    by (simp add: run_simps)
  have c: "basic_context = this_context basic"
    by (simp add: basic_def)
  have l: "first_raised (events (ready basic_network (basic\<lparr>this_context := unlinkable_context\<rparr>, []))) =
       Some (Error ''Unable to ling program \"basic\"'')"
    by (simp add: run_simps)
  have n: "first_raised (events (ready basic_network (basic, []))) = None"
    by (simp add: run_simps)
  show ?thesis
    using ready_settles [OF refl c basic_program_def, of basic_network] h
      ready_settles [OF refl refl basic_program_def, of basic_network
        "basic\<lparr>this_context := unlinkable_context\<rparr>"] l n
    by simp
qed

text \<open>
  C2 as stated fails: in the successful run of "basic" the promise is fulfilled, but
  with the array of the two \<open>undefined\<close>, not with the program that is then in the
  field \<open>_program\<close>.
\<close>

theorem ready_value_counterexample:
  "this_program (final (ready basic_network (basic, []))) = Some basic_program
   \<and> outcome (ready basic_network (basic, [])) = Fulfilled (Array [Undefined, Undefined])
   \<and> outcome (ready basic_network (basic, [])) \<noteq> Fulfilled (ProgramObject basic_program)"
  by (simp add: run_simps)

subsection \<open>Failures\<close>

text \<open>
  C3, as amended. When the source of a stage \<open>t\<close> arrives and the context reports that
  it has not compiled, the Error "Error compiling shader: " followed by the info log of
  that shader is raised and the promise \<open>ready()\<close> returns is rejected. It is rejected
  with that Error when the promise of stage \<open>t\<close> settles first, and when the other stage
  \<open>t'\<close> does not fail (its source is not refused by the network and compiles if it
  arrives); otherwise the other stage has failed first and the rejection is its error.
\<close>

theorem compile_failure:
  assumes "fetch_text net (shader_file this t) = Fulfilled body"
    and "\<not> COMPILE_STATUS (this_context this) (Shader t body)"
    and "e = Error (''Error compiling shader: '' @
               js_string (getShaderInfoLog (this_context this) (Shader t body)))"
    and "r = ready net (this, [])"
    and "t' \<noteq> t"
  shows "(\<exists>e'. outcome r = Rejected e')
     \<and> Raised e \<in> set (events r)
     \<and> (first net = t \<longrightarrow> outcome r = Rejected e)
     \<and> ((\<forall>e'. fetch_text net (shader_file this t') \<noteq> Rejected e')
          \<and> (\<forall>b. fetch_text net (shader_file this t') = Fulfilled b
                \<longrightarrow> COMPILE_STATUS (this_context this) (Shader t' b))
        \<longrightarrow> outcome r = Rejected e)"
  using assms(1,2,5)
  by (cases "first net"; cases t; cases t'; cases "fetch_text net (shader_file this t')";
      simp add: assms(3,4) ready_defs)

text \<open>
  The vertex source of "basic" replaced by a page that is no shader: the vertex stage
  settles first, the fragment stage does not fail, and the promise is rejected with
  the error carrying the vertex log.
\<close>

theorem compile_failure_witness:
  "fetch_text not_found_network (shader_file basic VERTEX_SHADER) = Fulfilled ''Not Found''
   \<and> \<not> COMPILE_STATUS basic_context (Shader VERTEX_SHADER ''Not Found'')
   \<and> first not_found_network = VERTEX_SHADER
   \<and> fetch_text not_found_network (shader_file basic FRAGMENT_SHADER) = Fulfilled frag_src
   \<and> COMPILE_STATUS basic_context (Shader FRAGMENT_SHADER frag_src)
   \<and> outcome (ready not_found_network (basic, [])) =
       Rejected (Error ''Error compiling shader: ERROR: vertex'')
   \<and> Raised (Error ''Error compiling shader: ERROR: vertex'')
       \<in> set (events (ready not_found_network (basic, [])))"
proof -
  have f: "fetch_text not_found_network (shader_file basic VERTEX_SHADER) = Fulfilled ''Not Found''"
    by (simp add: run_simps)
  have c: "\<not> COMPILE_STATUS (this_context basic) (Shader VERTEX_SHADER ''Not Found'')"
    by (simp add: run_simps)
  have n: "first not_found_network = VERTEX_SHADER"
    by (simp add: run_simps)
  have d: "FRAGMENT_SHADER \<noteq> VERTEX_SHADER"
    by simp
  have b: "this_context basic = basic_context"
    by (simp add: basic_def)
  have e: "js_string (getShaderInfoLog basic_context (Shader VERTEX_SHADER ''Not Found'')) =
      ''ERROR: vertex''"
    by (simp add: basic_context_def js_string_def)
  have o: "fetch_text not_found_network (shader_file basic FRAGMENT_SHADER) = Fulfilled frag_src"
    "COMPILE_STATUS basic_context (Shader FRAGMENT_SHADER frag_src)"
    by (simp_all add: run_simps)
  show ?thesis
    using compile_failure [OF f c refl refl d] f c n o
    by (simp add: b e)
qed

text \<open>
  C3 as stated fails for the vertex stage when neither shader compiles and the
  fragment stage settles first: the compile status of the vertex shader reports
  failure, its info log is "ERROR: vertex", and the promise is rejected with the error
  that carries the log of the fragment shader.
\<close>

theorem compile_failure_counterexample:
  "fetch_text fragment_first_network (shader_file (basic\<lparr>this_context := broken_context\<rparr>) VERTEX_SHADER) =
     Fulfilled vert_src
   \<and> \<not> COMPILE_STATUS broken_context (Shader VERTEX_SHADER vert_src)
   \<and> getShaderInfoLog broken_context (Shader VERTEX_SHADER vert_src) = Some ''ERROR: vertex''
   \<and> outcome (ready fragment_first_network (basic\<lparr>this_context := broken_context\<rparr>, [])) =
       Rejected (Error ''Error compiling shader: ERROR: fragment'')"
  by (simp add: run_simps)

text \<open>
  C4. Take an instance as the constructor returns it, both sources arriving and
  compiling. When the link status reports failure, the promise is rejected with the
  Error "Unable to ling program" with the name (the ProgramLinkError of the
  specification), no call validates the program, no call introspects it, and in every
  state of the run both Maps of parameters are empty. When the link status reports
  success and the validate status failure, the promise is rejected with the Error
  "Unable to validate program" with the name, and again nothing is introspected and
  both Maps stay empty. A call that validates the program is made only when the link
  status has reported success.
\<close>

theorem link_failure:
  assumes "constructor ctx (Some name) path_arg w0 = (Inr this, w0')"
    and "fetch_text net (shader_file this VERTEX_SHADER) = Fulfilled vs"
    and "fetch_text net (shader_file this FRAGMENT_SHADER) = Fulfilled fs"
    and "COMPILE_STATUS ctx (Shader VERTEX_SHADER vs)"
    and "COMPILE_STATUS ctx (Shader FRAGMENT_SHADER fs)"
    and "p = GLProgram [Shader VERTEX_SHADER vs, Shader FRAGMENT_SHADER fs]"
    and "r = ready net (this, [])"
  shows "(\<not> LINK_STATUS ctx p \<longrightarrow>
            outcome r = Rejected (Error (''Unable to ling program \"'' @ name @ ''\"''))
            \<and> \<not> list_ex is_validation (events r)
            \<and> \<not> list_ex is_introspection (events r)
            \<and> (\<forall>s \<in> set (states r). this_parameters s ACTIVE_UNIFORMS = []
                  \<and> this_parameters s ACTIVE_ATTRIBUTES = []))
     \<and> (LINK_STATUS ctx p \<and> \<not> VALIDATE_STATUS ctx p \<longrightarrow>
            outcome r = Rejected (Error (''Unable to validate program \"'' @ name @ ''\"''))
            \<and> \<not> list_ex is_introspection (events r)
            \<and> (\<forall>s \<in> set (states r). this_parameters s ACTIVE_UNIFORMS = []
                  \<and> this_parameters s ACTIVE_ATTRIBUTES = []))
     \<and> (list_ex is_validation (events r) \<longrightarrow> LINK_STATUS ctx p)"
proof -
  note c = constructor_Inr [OF assms(1)]
  have a: "COMPILE_STATUS (this_context this) (Shader VERTEX_SHADER vs)"
    "COMPILE_STATUS (this_context this) (Shader FRAGMENT_SHADER fs)"
    "this_name this = name" "this_parameters this = (\<lambda>_. [])"
    using assms(4,5) c by simp_all
  have "\<not> LINK_STATUS (this_context this) p \<longrightarrow>
            outcome r = Rejected (Error (''Unable to ling program \"'' @ name @ ''\"''))
            \<and> \<not> list_ex is_validation (events r)
            \<and> \<not> list_ex is_introspection (events r)
            \<and> (\<forall>s \<in> set (states r). this_parameters s ACTIVE_UNIFORMS = []
                  \<and> this_parameters s ACTIVE_ATTRIBUTES = [])"
    using assms(2,3,6) a
    by (cases "first net";
        simp add: assms(7) ready_defs is_validation_def is_introspection_def)
  moreover have "LINK_STATUS (this_context this) p \<and> \<not> VALIDATE_STATUS (this_context this) p \<longrightarrow>
            outcome r = Rejected (Error (''Unable to validate program \"'' @ name @ ''\"''))
            \<and> \<not> list_ex is_introspection (events r)
            \<and> (\<forall>s \<in> set (states r). this_parameters s ACTIVE_UNIFORMS = []
                  \<and> this_parameters s ACTIVE_ATTRIBUTES = [])"
    using assms(2,3,6) a
    by (cases "first net";
        simp add: assms(7) ready_defs is_validation_def is_introspection_def)
  moreover have "\<not> LINK_STATUS (this_context this) p \<longrightarrow> \<not> list_ex is_validation (events r)"
    using assms(2,3,6) a
    by (cases "first net";
        simp add: assms(7) ready_defs is_validation_def is_introspection_def)
  ultimately show ?thesis
    using c(1) by blast
qed

text \<open>
  The program "basic" with a context that links no program, and with one that
  validates none (there the program is validated, and refused).
\<close>

theorem link_failure_witness:
  "outcome (ready basic_network (basic\<lparr>this_context := unlinkable_context\<rparr>, [])) =
     Rejected (Error ''Unable to ling program \"basic\"'')
   \<and> \<not> list_ex is_validation (events (ready basic_network (basic\<lparr>this_context := unlinkable_context\<rparr>, [])))
   \<and> \<not> list_ex is_introspection (events (ready basic_network (basic\<lparr>this_context := unlinkable_context\<rparr>, [])))
   \<and> this_parameters (final (ready basic_network (basic\<lparr>this_context := unlinkable_context\<rparr>, []))) ACTIVE_UNIFORMS = []
   \<and> this_parameters (final (ready basic_network (basic\<lparr>this_context := unlinkable_context\<rparr>, []))) ACTIVE_ATTRIBUTES = []
   \<and> outcome (ready basic_network (basic\<lparr>this_context := invalid_context\<rparr>, [])) =
     Rejected (Error ''Unable to validate program \"basic\"'')
   \<and> list_ex is_validation (events (ready basic_network (basic\<lparr>this_context := invalid_context\<rparr>, [])))
   \<and> \<not> list_ex is_introspection (events (ready basic_network (basic\<lparr>this_context := invalid_context\<rparr>, [])))
   \<and> this_parameters (final (ready basic_network (basic\<lparr>this_context := invalid_context\<rparr>, []))) ACTIVE_UNIFORMS = []
   \<and> this_parameters (final (ready basic_network (basic\<lparr>this_context := invalid_context\<rparr>, []))) ACTIVE_ATTRIBUTES = []"
proof -
  have f: "fetch_text basic_network (shader_file (basic\<lparr>this_context := c\<rparr>) VERTEX_SHADER) =
      Fulfilled vert_src"
    "fetch_text basic_network (shader_file (basic\<lparr>this_context := c\<rparr>) FRAGMENT_SHADER) =
      Fulfilled frag_src" for c
    by (simp_all add: run_simps)
  have c: "COMPILE_STATUS unlinkable_context (Shader VERTEX_SHADER vert_src)"
    "COMPILE_STATUS unlinkable_context (Shader FRAGMENT_SHADER frag_src)"
    "COMPILE_STATUS invalid_context (Shader VERTEX_SHADER vert_src)"
    "COMPILE_STATUS invalid_context (Shader FRAGMENT_SHADER frag_src)"
    by (simp_all add: variant_defs basic_context_def)
  have s: "\<not> LINK_STATUS unlinkable_context basic_program"
    "LINK_STATUS invalid_context basic_program" "\<not> VALIDATE_STATUS invalid_context basic_program"
    by (simp_all add: variant_defs basic_context_def)
  have v: "list_ex is_validation
      (events (ready basic_network (basic\<lparr>this_context := invalid_context\<rparr>, [])))"
    by (simp add: run_simps is_validation_def)
  show ?thesis
    using link_failure [OF constructor_basic_in f c(1,2) basic_program_def refl]
      link_failure [OF constructor_basic_in f c(3,4) basic_program_def refl] s v
      final_in_states [of basic_network "(basic\<lparr>this_context := unlinkable_context\<rparr>, [])"]
      final_in_states [of basic_network "(basic\<lparr>this_context := invalid_context\<rparr>, [])"]
    by simp
qed

text \<open>
  C5, as amended. When the promise of the source of a stage \<open>t\<close> is rejected (the
  fetch or the reading of the body fails in transport) in a run started with no program
  set, the promise \<open>ready()\<close> returns is rejected; with the cause of the fetch itself,
  as it is, when the promise of stage \<open>t\<close> settles first and when the other stage does
  not fail; no program is created and the field \<open>_program\<close> is \<open>undefined\<close> in every
  state of the run.
\<close>

theorem fetch_failure:
  assumes "fetch_text net (shader_file this t) = Rejected cause"
    and "this_program this = None"
    and "r = ready net (this, [])"
    and "t' \<noteq> t"
  shows "(\<exists>e. outcome r = Rejected e)
     \<and> (first net = t \<longrightarrow> outcome r = Rejected cause)
     \<and> ((\<forall>e'. fetch_text net (shader_file this t') \<noteq> Rejected e')
          \<and> (\<forall>b. fetch_text net (shader_file this t') = Fulfilled b
                \<longrightarrow> COMPILE_STATUS (this_context this) (Shader t' b))
        \<longrightarrow> outcome r = Rejected cause)
     \<and> (\<forall>s \<in> set (states r). this_program s = None)
     \<and> CreateProgram \<notin> set (events r)"
  using assms(1,2,4)
  by (cases "first net"; cases t; cases t'; cases "fetch_text net (shader_file this t')";
      simp add: assms(3) ready_defs)

text \<open>
  The program "basic" with every fetch failing, the vertex stage settling first, and
  with the fetch of the vertex source alone failing.
\<close>

theorem fetch_failure_witness:
  "fetch_text offline_network (shader_file basic VERTEX_SHADER) = Rejected (TypeError ''Failed to fetch'')
   \<and> this_program basic = None
   \<and> first offline_network = VERTEX_SHADER
   \<and> outcome (ready offline_network (basic, [])) = Rejected (TypeError ''Failed to fetch'')
   \<and> this_program (final (ready offline_network (basic, []))) = None
   \<and> CreateProgram \<notin> set (events (ready offline_network (basic, [])))
   \<and> fetch_text vertex_down_network (shader_file basic VERTEX_SHADER) =
       Rejected (TypeError ''Failed to fetch'')
   \<and> fetch_text vertex_down_network (shader_file basic FRAGMENT_SHADER) = Fulfilled frag_src
   \<and> COMPILE_STATUS basic_context (Shader FRAGMENT_SHADER frag_src)
   \<and> outcome (ready vertex_down_network (basic, [])) = Rejected (TypeError ''Failed to fetch'')
   \<and> this_program (final (ready vertex_down_network (basic, []))) = None
   \<and> CreateProgram \<notin> set (events (ready vertex_down_network (basic, [])))"
proof -
  have f: "fetch_text offline_network (shader_file basic VERTEX_SHADER) =
      Rejected (TypeError ''Failed to fetch'')"
    and g: "fetch_text vertex_down_network (shader_file basic VERTEX_SHADER) =
      Rejected (TypeError ''Failed to fetch'')"
    by (simp_all add: run_simps)
  have p: "this_program basic = None"
    by (simp add: basic_def)
  have n: "first offline_network = VERTEX_SHADER"
    by (simp add: run_simps)
  have d: "FRAGMENT_SHADER \<noteq> VERTEX_SHADER"
    by simp
  have o: "fetch_text vertex_down_network (shader_file basic FRAGMENT_SHADER) = Fulfilled frag_src"
    "COMPILE_STATUS (this_context basic) (Shader FRAGMENT_SHADER frag_src)"
    "this_context basic = basic_context"
    by (simp_all add: run_simps)
  show ?thesis
    using fetch_failure [OF f p refl d] f p n final_in_states [of offline_network "(basic, [])"]
      fetch_failure [OF g p refl d] g o final_in_states [of vertex_down_network "(basic, [])"]
    by simp
qed

text \<open>
  C5 as stated fails. A source that is not found is a fulfilled fetch with status 404:
  its body is compiled like any other, so the promise is rejected with the compile
  error when the body is an error page, and it is fulfilled, with a program set, when
  the body happens to compile. And the cause of a failed fetch is passed on as it is:
  two instances with different paths are rejected with the same value, which carries
  no path.
\<close>

theorem fetch_failure_counterexample:
  "fetch not_found_network (shader_file basic VERTEX_SHADER) =
     Fulfilled (Response 404 (Fulfilled ''Not Found''))
   \<and> outcome (ready not_found_network (basic, [])) =
       Rejected (Error ''Error compiling shader: ERROR: vertex'')
   \<and> fetch not_found_glsl_network (shader_file basic VERTEX_SHADER) =
     Fulfilled (Response 404 (Fulfilled vert_src))
   \<and> outcome (ready not_found_glsl_network (basic, [])) = Fulfilled (Array [Undefined, Undefined])
   \<and> this_program (final (ready not_found_glsl_network (basic, []))) = Some basic_program
   \<and> shader_file basic VERTEX_SHADER \<noteq> shader_file (basic\<lparr>this_path := ''/other/basic/''\<rparr>) VERTEX_SHADER
   \<and> outcome (ready offline_network (basic, [])) = Rejected (TypeError ''Failed to fetch'')
   \<and> outcome (ready offline_network (basic\<lparr>this_path := ''/other/basic/''\<rparr>, [])) =
       Rejected (TypeError ''Failed to fetch'')"
  by (simp add: run_simps)

subsection \<open>The program field\<close>

text \<open>
  C6, as amended. In every state an instance can be in, the field \<open>_program\<close> is set
  only if the Map of shaders has a shader for the vertex and one for the fragment
  stage, each reported as compiled by the context. (The field is set when the program
  object is created, before it is linked: what the link and validate status then
  report does not matter.)
\<close>

theorem program_needs_shaders:
  assumes "reachable this" and "this_program this \<noteq> None"
  shows "(\<exists>sv. Map_get (this_shaders this) VERTEX_SHADER = Some sv
            \<and> COMPILE_STATUS (this_context this) sv)
     \<and> (\<exists>sf. Map_get (this_shaders this) FRAGMENT_SHADER = Some sf
            \<and> COMPILE_STATUS (this_context this) sf)"
proof -
  from assms(1) have "shaders_ok this"
  proof (induction rule: reachable.induct)
    case (constructed ctx name path_arg w this w')
    then show ?case
      using constructor_Inr(3,4) [OF constructed]
      by (simp add: shaders_ok_def Map_get_def)
  next
    case (in_ready this this' net w)
    then show ?case
      using shaders_ok_ready [of this net w] by simp
  qed
  with assms(2) show ?thesis
    by (auto simp add: shaders_ok_def)
qed

text \<open>The final state of the successful run of "basic".\<close>

theorem program_needs_shaders_witness:
  "reachable (final (ready basic_network (basic, [])))
   \<and> this_program (final (ready basic_network (basic, []))) \<noteq> None
   \<and> Map_get (this_shaders (final (ready basic_network (basic, [])))) VERTEX_SHADER =
       Some (Shader VERTEX_SHADER vert_src)
   \<and> Map_get (this_shaders (final (ready basic_network (basic, [])))) FRAGMENT_SHADER =
       Some (Shader FRAGMENT_SHADER frag_src)
   \<and> COMPILE_STATUS basic_context (Shader VERTEX_SHADER vert_src)
   \<and> COMPILE_STATUS basic_context (Shader FRAGMENT_SHADER frag_src)"
proof -
  have r: "reachable (final (ready basic_network (basic, [])))"
    using reachable_final [of basic_context] by (simp add: basic_def)
  have p: "this_program (final (ready basic_network (basic, []))) \<noteq> None"
    by (simp add: run_simps)
  have s: "this_shaders (final (ready basic_network (basic, []))) =
      [(VERTEX_SHADER, Shader VERTEX_SHADER vert_src), (FRAGMENT_SHADER, Shader FRAGMENT_SHADER frag_src)]"
    by (simp add: run_simps)
  have c: "COMPILE_STATUS basic_context (Shader VERTEX_SHADER vert_src)"
    "COMPILE_STATUS basic_context (Shader FRAGMENT_SHADER frag_src)"
    by (simp_all add: basic_context_def)
  show ?thesis
    using program_needs_shaders [OF r p] r p c
    by (simp add: s Map_get_def)
qed

text \<open>
  C6 as stated fails: with a context that links no program the run of "basic" ends,
  rejected, in a state whose field \<open>_program\<close> is set.
\<close>

theorem program_before_link_counterexample:
  "reachable (final (ready basic_network (basic\<lparr>this_context := unlinkable_context\<rparr>, [])))
   \<and> this_program (final (ready basic_network (basic\<lparr>this_context := unlinkable_context\<rparr>, []))) =
       Some basic_program
   \<and> \<not> LINK_STATUS unlinkable_context basic_program
   \<and> outcome (ready basic_network (basic\<lparr>this_context := unlinkable_context\<rparr>, [])) =
       Rejected (Error ''Unable to ling program \"basic\"'')"
  using reachable_final [of unlinkable_context]
  by (simp add: run_simps)

subsection \<open>Introspection\<close>

text \<open>
  C9. Running \<open>qualify\<close> for a parameter class a second time, in the state the first
  run has left, leaves the instance (and so its two maps from names to locations) as
  the first run has left it, and returns or throws what the first run did. The same
  holds of \<open>qualifyAll\<close>, the whole introspection stage. The program and the context
  are those of the instance and are not changed by the first run, so the second run
  is against the same program with the context reporting the same.
\<close>

theorem qualify_idempotent:
  "fst (snd (qualify par (snd (qualify par s)))) = fst (snd (qualify par s))
   \<and> fst (qualify par (snd (qualify par s))) = fst (qualify par s)
   \<and> fst (snd (qualifyAll (snd (qualifyAll s)))) = fst (snd (qualifyAll s))
   \<and> fst (qualifyAll (snd (qualifyAll s))) = fst (qualifyAll s)"
proof -
  obtain this w where s: "s = (this, w)" by (cases s)
  obtain w1 where q1: "qualify par (this, w) =
      (fst (qualify par (this, [])), (after_qualify par this, w1))"
    by (rule qualify_cases)
  have a: "fst (snd (qualify par (snd (qualify par s)))) = fst (snd (qualify par s))"
    by (simp add: s q1 qualify_state after_qualify_idem)
  have b: "fst (qualify par (snd (qualify par s))) = fst (qualify par s)"
    by (simp add: s q1 qualify_result_after)
  define S where "S = fst (snd (qualifyAll (this, w)))"
  have S: "S = (case fst (qualify ACTIVE_UNIFORMS (this, [])) of
      Inl e \<Rightarrow> after_qualify ACTIVE_UNIFORMS this
    | Inr u \<Rightarrow> after_qualify ACTIVE_ATTRIBUTES (after_qualify ACTIVE_UNIFORMS this))"
    by (simp add: S_def qualifyAll_state)
  have c': "fst (snd (qualifyAll (S, w'))) = S" for w'
    by (simp add: S qualifyAll_state qualify_result_after after_qualify_idem
        after_qualifyAll_idem split: sum.splits)
  have d': "fst (qualifyAll (S, w')) = fst (qualifyAll (this, w))" for w'
    by (simp add: S qualifyAll_result qualify_result_after split: sum.splits)
  have c: "fst (snd (qualifyAll (snd (qualifyAll s)))) = fst (snd (qualifyAll s))"
    using c' [of "snd (snd (qualifyAll (this, w)))"] by (simp add: s S_def)
  have d: "fst (qualifyAll (snd (qualifyAll s))) = fst (qualifyAll s)"
    using d' [of "snd (snd (qualifyAll (this, w)))"] by (simp add: s S_def)
  from a b c d show ?thesis by simp
qed

subsection \<open>Vec3\<close>

text \<open>
  C10 fails on the code: for all vectors, \<open>copy\<close> throws a ReferenceError (the
  identifier \<open>v\<close> has no binding) and leaves \<open>this\<close> as it was, and \<open>clone\<close> throws a
  ReferenceError (the identifier \<open>v3\<close> has no binding).
\<close>

theorem copy_clone_throw:
  "copy this v3 = (Inl (ReferenceError ''v is not defined''), this)
   \<and> clone this = Inl (ReferenceError ''v3 is not defined'')"
  by (simp add: copy_def clone_def resolve_def)

end
